theory Spec2Isabelle
  imports Complex_Main "HOL-Library.Multiset" "HOL-Library.Char_ord" "HOL-Library.List_Lexorder"
begin

section \<open>Data model (src/types.ts)\<close>

text \<open>
  \<^verbatim>\<open>NoticeInput = Omit<Notice, 'id' | 'createdAt'>\<close>: the notice record extends the input
  record by the two fields the server assigns. Every field has the JSON type the
  interface declares. The literal unions of \<^verbatim>\<open>category\<close> and \<^verbatim>\<open>priority\<close> are
  checked by the TypeScript compiler only (\<^verbatim>\<open>JSON.parse(...) as ClientEvent\<close> checks
  nothing), so on the wire they are strings; \<open>categories\<close> and \<open>priorities\<close> name the
  declared sets. The field \<^verbatim>\<open>id\<close> is called \<open>nid\<close>.

  The optional \<^verbatim>\<open>expiresAt\<close> of a command is a string or absent (\<open>None\<close>). In a notice
  object it is what the run time has there, which the declared \<^verbatim>\<open>string\<close> does not
  bound: nothing (absent, or SQL NULL read as \<^verbatim>\<open>null\<close>), a string, or a number, since
  the column \<^verbatim>\<open>expiresAt DATETIME\<close> turns text that reads as a number into one. The
  input record leaves the type of the field open for that.
\<close>

datatype column_value = SqlNull | SqlText string | SqlNumber rat

record 'e notice_input =
  title :: string
  content :: string
  category :: string
  priority :: string
  author :: string
  expiresAt :: 'e

type_synonym command_input = "string option notice_input"

record notice = "column_value notice_input" +
  nid :: int
  createdAt :: string



text \<open>
  The two tagged unions. A fourth constructor of each stands for a parsed JSON object
  whose \<^verbatim>\<open>type\<close> property is the given string and matches no branch of the receiver.
\<close>

datatype server_event =
    INITIAL_STATE "notice list"
  | NOTICE_ADDED notice
  | NOTICE_DELETED int
  | OTHER_EVENT string

datatype client_event =
    ADD_NOTICE command_input
  | DELETE_NOTICE int
  | OTHER_COMMAND string

fun server_event_type :: "server_event \<Rightarrow> string" where
  "server_event_type (INITIAL_STATE ns) = ''INITIAL_STATE''"
| "server_event_type (NOTICE_ADDED n) = ''NOTICE_ADDED''"
| "server_event_type (NOTICE_DELETED i) = ''NOTICE_DELETED''"
| "server_event_type (OTHER_EVENT t) = t"

fun client_event_type :: "client_event \<Rightarrow> string" where
  "client_event_type (ADD_NOTICE i) = ''ADD_NOTICE''"
| "client_event_type (DELETE_NOTICE i) = ''DELETE_NOTICE''"
| "client_event_type (OTHER_COMMAND t) = t"

section \<open>Client Projector (src/App.tsx, socket.onmessage)\<close>

text \<open>
  \<^verbatim>\<open>switch (data.type)\<close> with three cases and no default; each \<^verbatim>\<open>setNotices\<close> maps the
  previous local sequence to the next one.
\<close>

fun onmessage :: "server_event \<Rightarrow> notice list \<Rightarrow> notice list" where
  "onmessage (INITIAL_STATE ns) prev = ns"
| "onmessage (NOTICE_ADDED n) prev = n # prev"
| "onmessage (NOTICE_DELETED i) prev = filter (\<lambda>n. nid n \<noteq> i) prev"
| "onmessage (OTHER_EVENT t) prev = prev"

definition project :: "server_event list \<Rightarrow> notice list \<Rightarrow> notice list" where
  "project evs local = fold onmessage evs local"

section \<open>Durable Store (src/server.ts, the notices table and its three statements)\<close>

text \<open>
  The table is the list of its rows in rowid order, the order of a table scan; \<open>seq\<close> is
  the entry of \<^verbatim>\<open>sqlite_sequence\<close> that \<^verbatim>\<open>AUTOINCREMENT\<close> keeps for the table (0 when
  there is none yet). \<^verbatim>\<open>id INTEGER PRIMARY KEY AUTOINCREMENT\<close> is a 64-bit signed rowid:
  a new row gets one more than the largest of \<open>seq\<close> and the rowids present, and the
  insert fails (SQLITE_FULL) once that largest value is the greatest rowid.
\<close>

record store =
  rows :: "notice list"
  seq :: int

datatype error = SyntaxError | SqliteError

definition init_store :: store where
  "init_store = \<lparr>rows = [], seq = 0\<rparr>"

definition MAX_ROWID :: int where
  "MAX_ROWID = 9223372036854775807"

definition largest_rowid :: "store \<Rightarrow> int" where
  "largest_rowid d = fold max (map nid (rows d)) (seq d)"

text \<open>
  A JavaScript number is a double. \<open>js_number x\<close> is the integer \<open>x\<close> as a number: \<open>x\<close>
  itself up to \<open>2^53\<close>, beyond that the nearest integer with a significand of 53 bits,
  the even one of two equally near.
\<close>

function bit_length :: "int \<Rightarrow> nat" where
  "bit_length x = (if x \<le> 0 then 0 else Suc (bit_length (x div 2)))"
  by pat_completeness auto
termination
  by (relation "measure nat") auto

definition js_number :: "int \<Rightarrow> int" where
  "js_number x =
     (if \<bar>x\<bar> \<le> 2 ^ 53 then x
      else let e = bit_length \<bar>x\<bar> - 53;
               q = \<bar>x\<bar> div 2 ^ e;
               r = \<bar>x\<bar> mod 2 ^ e;
               q' = (if 2 ^ (e - 1) < r \<or> (r = 2 ^ (e - 1) \<and> odd q) then q + 1 else q)
           in sgn x * q' * 2 ^ e)"

text \<open>
  The column \<^verbatim>\<open>expiresAt DATETIME\<close> has NUMERIC affinity. A text stored in it that is
  a well-formed number (white space, a sign, digits with or without a point, an
  exponent, white space; at least one digit; no hexadecimal) is stored as that number,
  any other text as it is. An integer literal within the 64-bit range is stored
  exactly; every other literal goes through a double. The double of an integral value
  is \<open>js_number\<close> of it; for a value with a fraction the model keeps the number the
  literal denotes and leaves its rounding to a double out (so also underflow to zero and
  overflow to infinity).
\<close>

definition is_space :: "char \<Rightarrow> bool" where
  "is_space c = (c \<in> set [CHR '' '', CHR 0x09, CHR 0x0A, CHR 0x0B, CHR 0x0C, CHR 0x0D])"

definition is_digit :: "char \<Rightarrow> bool" where
  "is_digit c = (c \<in> set ''0123456789'')"

definition digits_value :: "string \<Rightarrow> int" where
  "digits_value ds = foldl (\<lambda>a c. 10 * a + (of_char c - 48)) 0 ds"

fun take_sign :: "string \<Rightarrow> int \<times> string" where
  "take_sign [] = (1, [])"
| "take_sign (c # r) =
     (if c = CHR ''-'' then (- 1, r) else if c = CHR ''+'' then (1, r) else (1, c # r))"

fun take_fraction :: "string \<Rightarrow> string \<times> string \<times> bool" where
  "take_fraction [] = ([], [], False)"
| "take_fraction (c # r) =
     (if c = CHR ''.'' then (takeWhile is_digit r, dropWhile is_digit r, True)
      else ([], c # r, False))"

fun take_exponent :: "string \<Rightarrow> (int \<times> string \<times> bool) option" where
  "take_exponent [] = Some (0, [], False)"
| "take_exponent (c # r) =
     (if c = CHR ''e'' \<or> c = CHR ''E''
      then (case take_sign r of (sg, r1) \<Rightarrow>
              if takeWhile is_digit r1 = [] then None
              else Some (sg * digits_value (takeWhile is_digit r1),
                         dropWhile is_digit r1, True))
      else Some (0, c # r, False))"

text \<open>
  \<open>numeric_literal s\<close> is \<open>Some (plain, m, e)\<close> when \<open>s\<close> is a well-formed number: it
  denotes \<open>m \<times> 10^e\<close>, and \<open>plain\<close> says that it has neither point nor exponent.
\<close>

definition numeric_literal :: "string \<Rightarrow> (bool \<times> int \<times> int) option" where
  "numeric_literal s =
     (case take_sign (dropWhile is_space s) of (sg, s1) \<Rightarrow>
        (case take_fraction (dropWhile is_digit s1) of (fp, s2, dot) \<Rightarrow>
           if takeWhile is_digit s1 @ fp = [] then None
           else (case take_exponent s2 of
                   None \<Rightarrow> None
                 | Some (ex, s3, has_e) \<Rightarrow>
                     if dropWhile is_space s3 \<noteq> [] then None
                     else Some (\<not> dot \<and> \<not> has_e,
                                sg * digits_value (takeWhile is_digit s1 @ fp),
                                ex - int (length fp)))))"

definition numeric_affinity :: "string \<Rightarrow> column_value" where
  "numeric_affinity s =
     (case numeric_literal s of
        None \<Rightarrow> SqlText s
      | Some (plain, m, e) \<Rightarrow>
          if plain \<and> - (2 ^ 63) \<le> m \<and> m < 2 ^ 63 then SqlNumber (of_int m)
          else if 0 \<le> e then SqlNumber (of_int (js_number (m * 10 ^ nat e)))
          else if m mod 10 ^ nat (- e) = 0
            then SqlNumber (of_int (js_number (m div 10 ^ nat (- e))))
          else SqlNumber (of_int m / 10 ^ nat (- e)))"

text \<open>
  \<^verbatim>\<open>INSERT INTO notices (title, content, category, priority, author, expiresAt)
  VALUES (?, ?, ?, ?, ?, ?)\<close> run with \<^verbatim>\<open>expiresAt || null\<close> as the last parameter (an
  absent or empty \<^verbatim>\<open>expiresAt\<close> is stored as NULL, any other under the affinity of
  its column). The five columns before it are \<^verbatim>\<open>TEXT\<close> and keep the strings.
  \<^verbatim>\<open>createdAt\<close> is not among the columns, so it takes \<^verbatim>\<open>DEFAULT CURRENT_TIMESTAMP\<close>,
  the parameter \<open>now\<close>. The result is \<^verbatim>\<open>info.lastInsertRowid\<close> and the new store.
\<close>

definition or_null :: "string option \<Rightarrow> string option" where
  "or_null x = (case x of None \<Rightarrow> None | Some s \<Rightarrow> if s = [] then None else Some s)"

definition new_row :: "int \<Rightarrow> string \<Rightarrow> command_input \<Rightarrow> notice" where
  "new_row r now i =
     \<lparr>title = title i, content = content i, category = category i, priority = priority i,
      author = author i,
      expiresAt = (case or_null (expiresAt i) of None \<Rightarrow> SqlNull | Some s \<Rightarrow> numeric_affinity s),
      nid = r, createdAt = now\<rparr>"

definition insert_notice :: "store \<Rightarrow> string \<Rightarrow> command_input \<Rightarrow> error + (int \<times> store)" where
  "insert_notice d now i =
     (if MAX_ROWID \<le> largest_rowid d then Inl SqliteError
      else let r = largest_rowid d + 1
           in Inr (r, \<lparr>rows = rows d @ [new_row r now i], seq = r\<rparr>))"

text \<open>\<^verbatim>\<open>DELETE FROM notices WHERE id = ?\<close>\<close>

definition delete_notice :: "store \<Rightarrow> int \<Rightarrow> store" where
  "delete_notice d i = d\<lparr>rows := filter (\<lambda>n. nid n \<noteq> i) (rows d)\<rparr>"

text \<open>
  \<^verbatim>\<open>SELECT * FROM notices ORDER BY createdAt DESC\<close>: the one sort key is the text of
  \<^verbatim>\<open>createdAt\<close>, compared bytewise. The query names no second key, so SQL leaves the
  order of rows with equal keys to the engine; SQLite's sorter is a merge sort out of
  which such rows come in the order they went in, the order of the table scan.
  \<open>listAll\<close> is that sort: an insertion of each row, last row first, in front of the rows
  that are not newer.
\<close>

fun insert_desc :: "notice \<Rightarrow> notice list \<Rightarrow> notice list" where
  "insert_desc x [] = [x]"
| "insert_desc x (y # ys) =
     (if createdAt y \<le> createdAt x then x # y # ys else y # insert_desc x ys)"

definition listAll :: "store \<Rightarrow> notice list" where
  "listAll d = foldr insert_desc (rows d) []"

section \<open>Synchronization Hub (src/server.ts, startServer)\<close>

text \<open>
  The hub's state is the database and \<^verbatim>\<open>wss.clients\<close>, each socket with its
  \<^verbatim>\<open>readyState\<close>. What a handler does to the outside is the list of its effects in
  program order. The two clocks a handler reads are inputs: \<open>current_timestamp\<close> is what
  SQLite's \<^verbatim>\<open>CURRENT_TIMESTAMP\<close> yields for the insert, \<open>date_iso\<close> is
  \<^verbatim>\<open>new Date().toISOString()\<close>.
\<close>

type_synonym conn = nat

datatype ready_state = CONNECTING | OPEN | CLOSING | CLOSED

record hub =
  db :: store
  clients :: "(conn \<times> ready_state) list"

record clock =
  current_timestamp :: string
  date_iso :: string

datatype effect =
    DbInsert notice
  | DbDelete int
  | Send conn server_event
  | ConsoleLog string
  | ConsoleError error

definition init_hub :: hub where
  "init_hub = \<lparr>db = init_store, clients = []\<rparr>"

definition broadcast :: "(conn \<times> ready_state) list \<Rightarrow> server_event \<Rightarrow> effect list" where
  "broadcast cs event = map (\<lambda>c. Send (fst c) event) (filter (\<lambda>c. snd c = OPEN) cs)"

text \<open>
  \<^verbatim>\<open>wss.on("connection", ...)\<close>: the socket is in \<^verbatim>\<open>wss.clients\<close> and open when the
  handler runs; the handler sends the snapshot to it.
\<close>

definition on_connection :: "hub \<Rightarrow> conn \<Rightarrow> hub \<times> effect list" where
  "on_connection h ws =
     (let notices = listAll (db h);
          formattedNotices = map (\<lambda>n. n\<lparr>createdAt := createdAt n\<rparr>) notices
      in (h\<lparr>clients := clients h @ [(ws, OPEN)]\<rparr>,
          [ConsoleLog ''Client connected'', Send ws (INITIAL_STATE formattedNotices)]))"

text \<open>
  \<^verbatim>\<open>ws.on("message", ...)\<close>. An inbound frame either makes \<^verbatim>\<open>JSON.parse\<close> throw
  (\<open>Unparseable\<close>) or parses to an event. \<open>try_message\<close> is the body of the \<^verbatim>\<open>try\<close>, \<open>Inl\<close>
  a thrown error; every throw happens before the first effect of the body, so the
  \<^verbatim>\<open>catch\<close>, which logs the error, meets the state the handler started in. The handler
  does not use the socket it is registered on.

  \<open>newNotice\<close> is the object the handler builds for the broadcast: the fields of the
  command as they came, the handler's own reading of the clock as \<^verbatim>\<open>createdAt\<close>, and
  as the id \<^verbatim>\<open>info.lastInsertRowid as number\<close>, the rowid as a JavaScript number.
\<close>

datatype inbound = Unparseable | Parsed client_event

definition newNotice :: "int \<Rightarrow> string \<Rightarrow> command_input \<Rightarrow> notice" where
  "newNotice r stamp i =
     \<lparr>title = title i, content = content i, category = category i, priority = priority i,
      author = author i,
      expiresAt = (case expiresAt i of None \<Rightarrow> SqlNull | Some s \<Rightarrow> SqlText s),
      nid = js_number r, createdAt = stamp\<rparr>"

fun try_message :: "hub \<Rightarrow> clock \<Rightarrow> inbound \<Rightarrow> error + (hub \<times> effect list)" where
  "try_message h t Unparseable = Inl SyntaxError"
| "try_message h t (Parsed (ADD_NOTICE i)) =
     (case insert_notice (db h) (current_timestamp t) i of
        Inl e \<Rightarrow> Inl e
      | Inr (r, d) \<Rightarrow>
          Inr (h\<lparr>db := d\<rparr>,
               DbInsert (new_row r (current_timestamp t) i)
                 # broadcast (clients h) (NOTICE_ADDED (newNotice r (date_iso t) i))))"
| "try_message h t (Parsed (DELETE_NOTICE i)) =
     Inr (h\<lparr>db := delete_notice (db h) i\<rparr>,
          DbDelete i # broadcast (clients h) (NOTICE_DELETED i))"
| "try_message h t (Parsed (OTHER_COMMAND ty)) = Inr (h, [])"

definition on_message :: "hub \<Rightarrow> clock \<Rightarrow> inbound \<Rightarrow> hub \<times> effect list" where
  "on_message h t m =
     (case try_message h t m of
        Inl err \<Rightarrow> (h, [ConsoleError err])
      | Inr r \<Rightarrow> r)"

text \<open>The hub handles one event at a time: a run is a fold over the events.\<close>

datatype hub_event = Connection conn | Message clock inbound

fun handle :: "hub \<Rightarrow> hub_event \<Rightarrow> hub \<times> effect list" where
  "handle h (Connection ws) = on_connection h ws"
| "handle h (Message t m) = on_message h t m"

fun run :: "hub \<Rightarrow> hub_event list \<Rightarrow> hub \<times> effect list" where
  "run h [] = (h, [])"
| "run h (e # es) =
     (case handle h e of (h1, fx1) \<Rightarrow>
        (case run h1 es of (h2, fx2) \<Rightarrow> (h2, fx1 @ fx2)))"

section \<open>Notions the properties are stated with\<close>

text \<open>The rowids of the inserts among a handler's effects, in the order they happened.\<close>

fun inserted_ids :: "effect list \<Rightarrow> int list" where
  "inserted_ids [] = []"
| "inserted_ids (DbInsert n # fx) = nid n # inserted_ids fx"
| "inserted_ids (e # fx) = inserted_ids fx"

text \<open>
  \<open>added_and_kept n fx\<close>: somewhere in \<open>fx\<close> the row \<open>n\<close> was inserted, and no delete of its
  id follows that insert.
\<close>

fun added_and_kept :: "notice \<Rightarrow> effect list \<Rightarrow> bool" where
  "added_and_kept n [] = False"
| "added_and_kept n (e # fx) =
     ((e = DbInsert n \<and> DbDelete (nid n) \<notin> set fx) \<or> added_and_kept n fx)"


text \<open>
  The order the specification gives \<^verbatim>\<open>listAll\<close>: newest first, and of two notices with
  the same \<^verbatim>\<open>createdAt\<close> the one with the greater id first.
\<close>

definition newest_first_ties_by_id :: "notice list \<Rightarrow> bool" where
  "newest_first_ties_by_id ns =
     sorted_wrt (\<lambda>a b. createdAt b < createdAt a \<or> (createdAt a = createdAt b \<and> nid b < nid a)) ns"

text \<open>
  What the query of \<^verbatim>\<open>listAll\<close> asks of an answer, whatever the engine does with equal
  keys: the rows of the table, newest first.
\<close>

definition answers_query :: "store \<Rightarrow> notice list \<Rightarrow> bool" where
  "answers_query d ns =
     (mset ns = mset (rows d) \<and> sorted_wrt (\<lambda>a b. createdAt b \<le> createdAt a) ns)"

section \<open>Sample data\<close>

definition clock_0128 :: clock where
  "clock_0128 =
     \<lparr>current_timestamp = ''2026-11-02 01:28:00'', date_iso = ''2026-11-02T01:28:00.123Z''\<rparr>"

definition clock_0129 :: clock where
  "clock_0129 =
     \<lparr>current_timestamp = ''2026-11-02 01:29:30'', date_iso = ''2026-11-02T01:29:30.456Z''\<rparr>"

definition exam_input :: command_input where
  "exam_input =
     \<lparr>title = ''Exam Schedule'', content = ''Finals begin Monday'', category = ''Exam'',
      priority = ''High'', author = ''Registrar'', expiresAt = None\<rparr>"

definition fair_input :: command_input where
  "fair_input =
     \<lparr>title = ''Science Fair'', content = ''Hall B at noon'', category = ''Event'',
      priority = ''Low'', author = ''Admin'', expiresAt = Some ''2026-12-01''\<rparr>"

definition untitled_input :: command_input where
  "untitled_input =
     \<lparr>title = [], content = ''Finals begin Monday'', category = ''Exam'',
      priority = ''High'', author = ''Registrar'', expiresAt = None\<rparr>"

definition exam_row :: notice where
  "exam_row = new_row 1 ''2026-11-02 01:28:00'' exam_input"

definition fair_row :: notice where
  "fair_row = new_row 2 ''2026-11-02 01:28:00'' fair_input"

definition hub_one_client :: hub where
  "hub_one_client = \<lparr>db = init_store, clients = [(0, OPEN)]\<rparr>"

definition sports_input :: command_input where
  "sports_input =
     \<lparr>title = ''Match'', content = ''Saturday'', category = ''Sports'',
      priority = ''Urgent'', author = ''Coach'', expiresAt = None\<rparr>"

definition late_fair_row :: notice where
  "late_fair_row = new_row 2 ''2026-11-02 01:29:30'' fair_input"

definition three_commands :: "hub_event list" where
  "three_commands =
     [Message clock_0128 (Parsed (ADD_NOTICE exam_input)),
      Message clock_0129 (Parsed (ADD_NOTICE fair_input)),
      Message clock_0129 (Parsed (DELETE_NOTICE 1))]"

definition same_second_adds :: "hub_event list" where
  "same_second_adds =
     [Message clock_0128 (Parsed (ADD_NOTICE exam_input)),
      Message clock_0128 (Parsed (ADD_NOTICE fair_input))]"

definition add_delete_add :: "hub_event list" where
  "add_delete_add =
     [Message clock_0128 (Parsed (ADD_NOTICE exam_input)),
      Message clock_0128 (Parsed (ADD_NOTICE fair_input)),
      Message clock_0129 (Parsed (DELETE_NOTICE 2)),
      Connection 4,
      Message clock_0129 (Parsed (ADD_NOTICE fair_input))]"

definition numeric_expiry_input :: command_input where
  "numeric_expiry_input =
     \<lparr>title = ''Library hours'', content = ''Open until ten'', category = ''General'',
      priority = ''Medium'', author = ''Admin'', expiresAt = Some ''1e3''\<rparr>"

definition hub_at_2_53 :: hub where
  "hub_at_2_53 = \<lparr>db = \<lparr>rows = [], seq = 9007199254740992\<rparr>, clients = [(0, OPEN)]\<rparr>"

definition hub_with_exam :: hub where
  "hub_with_exam = \<lparr>db = \<lparr>rows = [exam_row], seq = 1\<rparr>, clients = [(0, OPEN), (1, CLOSING)]\<rparr>"

lemmas sample_defs = three_commands_def same_second_adds_def add_delete_add_def
  clock_0128_def clock_0129_def exam_input_def fair_input_def untitled_input_def sports_input_def
  exam_row_def fair_row_def late_fair_row_def hub_one_client_def hub_with_exam_def
  new_row_def newNotice_def or_null_def init_hub_def init_store_def
  on_message_def insert_notice_def delete_notice_def largest_rowid_def MAX_ROWID_def
  broadcast_def listAll_def on_connection_def

section \<open>The Client Projector's fold\<close>

lemma project_snoc: "project (evs @ [e]) local = onmessage e (project evs local)"
  by (simp add: project_def)

lemma filter_out_absent: "i \<notin> nid ` set prev \<Longrightarrow> filter (\<lambda>n. nid n \<noteq> i) prev = prev"
  by (induction prev) auto

lemma filter_out_the_entry:
  assumes "distinct (map nid (xs @ n # ys))"
  shows "filter (\<lambda>m. nid m \<noteq> nid n) (xs @ n # ys) = xs @ ys"
proof -
  from assms have "nid n \<notin> nid ` set xs" and "nid n \<notin> nid ` set ys"
    by auto
  then show ?thesis
    by (simp add: filter_out_absent)
qed

text \<open>
  C6. The projector folds the inbound facts one by one. \<^verbatim>\<open>INITIAL_STATE\<close> replaces the
  local sequence by the given one, in the given order; \<^verbatim>\<open>NOTICE_ADDED\<close> puts the notice
  at the front; after \<^verbatim>\<open>NOTICE_DELETED\<close> no entry has that id: a sequence without an
  entry of that id stays as it is, and out of a sequence (of distinct ids) that has one
  exactly that entry is taken, the rest staying in place.
\<close>

theorem projector_fold:
  "project (evs @ [e]) local = onmessage e (project evs local)
   \<and> onmessage (INITIAL_STATE ns) prev = ns
   \<and> onmessage (NOTICE_ADDED n) prev = n # prev
   \<and> i \<notin> nid ` set (onmessage (NOTICE_DELETED i) prev)
   \<and> (i \<notin> nid ` set prev \<longrightarrow> onmessage (NOTICE_DELETED i) prev = prev)
   \<and> (distinct (map nid (xs @ n # ys)) \<longrightarrow>
        onmessage (NOTICE_DELETED (nid n)) (xs @ n # ys) = xs @ ys)"
  using filter_out_the_entry [of xs n ys]
  by (auto simp: project_snoc filter_out_absent)

theorem projector_fold_witness:
  "3 \<notin> nid ` set [fair_row, exam_row]
   \<and> onmessage (NOTICE_DELETED 3) [fair_row, exam_row] = [fair_row, exam_row]
   \<and> distinct (map nid ([fair_row] @ exam_row # []))
   \<and> onmessage (NOTICE_DELETED (nid exam_row)) ([fair_row] @ exam_row # []) = [fair_row] @ []
   \<and> project ([INITIAL_STATE [exam_row]] @ [NOTICE_ADDED fair_row]) [] = [fair_row, exam_row]"
  using projector_fold [where evs = "[INITIAL_STATE [exam_row]]" and e = "NOTICE_ADDED fair_row"
      and local = "[]" and ns = "[]" and n = exam_row and prev = "[fair_row, exam_row]"
      and i = 3 and xs = "[fair_row]" and ys = "[]"]
  by (simp add: exam_row_def fair_row_def new_row_def project_def)

text \<open>
  C10. A server event whose type is none of \<^verbatim>\<open>INITIAL_STATE\<close>, \<^verbatim>\<open>NOTICE_ADDED\<close> and
  \<^verbatim>\<open>NOTICE_DELETED\<close> meets no case of the switch: the handler leaves the local notice
  sequence as it was.
\<close>

theorem unknown_event_ignored:
  "server_event_type e \<notin> {''INITIAL_STATE'', ''NOTICE_ADDED'', ''NOTICE_DELETED''}
   \<Longrightarrow> onmessage e prev = prev"
  by (cases e) simp_all

theorem unknown_event_ignored_witness:
  "server_event_type (OTHER_EVENT ''PING'') \<notin> {''INITIAL_STATE'', ''NOTICE_ADDED'', ''NOTICE_DELETED''}
   \<and> onmessage (OTHER_EVENT ''PING'') [fair_row, exam_row] = [fair_row, exam_row]"
  using unknown_event_ignored [of "OTHER_EVENT ''PING''" "[fair_row, exam_row]"]
  by simp

section \<open>The store and the hub\<close>

subsection \<open>Numbers\<close>

lemma js_number_exact: "\<bar>x\<bar> \<le> 2 ^ 53 \<Longrightarrow> js_number x = x"
  by (simp add: js_number_def)

lemma js_number_rounds:
  "js_number 9007199254740993 = 9007199254740992
   \<and> js_number 9007199254740995 = 9007199254740996
   \<and> js_number 9223372036854775807 = 9223372036854775808
   \<and> js_number (- 9007199254740993) = - 9007199254740992"
  by code_simp

lemma numeric_affinity_of_numbers:
  "numeric_affinity ''1e3'' = SqlNumber 1000
   \<and> numeric_affinity ''2026'' = SqlNumber 2026
   \<and> numeric_affinity ''007'' = SqlNumber 7
   \<and> numeric_affinity '' 12 '' = SqlNumber 12
   \<and> numeric_affinity ''1.5'' = SqlNumber (3 / 2)
   \<and> numeric_affinity ''9007199254740993'' = SqlNumber 9007199254740993
   \<and> numeric_affinity ''9007199254740993.0'' = SqlNumber 9007199254740992"
  by code_simp

lemma numeric_affinity_of_text:
  "numeric_affinity ''2026-12-01'' = SqlText ''2026-12-01''
   \<and> numeric_affinity ''2026-12-01T10:00:00.000Z'' = SqlText ''2026-12-01T10:00:00.000Z''
   \<and> numeric_affinity ''0x10'' = SqlText ''0x10''
   \<and> numeric_affinity ''1e'' = SqlText ''1e''
   \<and> numeric_affinity ''.'' = SqlText ''.''"
  by code_simp

subsection \<open>Rowids and the sort\<close>

lemma fold_max_ge_start: "a \<le> fold max xs (a::int)"
  by (induction xs arbitrary: a) (auto intro: order_trans [OF max.cobounded2])

lemma fold_max_ge_member: "x \<in> set xs \<Longrightarrow> x \<le> fold max xs (a::int)"
proof (induction xs arbitrary: a)
  case Nil
  then show ?case by simp
next
  case (Cons y ys)
  show ?case
  proof (cases "x = y")
    case True
    have "max y a \<le> fold max ys (max y a)" by (rule fold_max_ge_start)
    with True show ?thesis by simp
  next
    case False
    with Cons show ?thesis by simp
  qed
qed

lemma seq_le_largest: "seq d \<le> largest_rowid d"
  by (simp add: largest_rowid_def fold_max_ge_start)

lemma rowid_le_largest: "n \<in> set (rows d) \<Longrightarrow> nid n \<le> largest_rowid d"
  by (simp add: largest_rowid_def fold_max_ge_member)

lemma mset_insert_desc: "mset (insert_desc x ys) = add_mset x (mset ys)"
  by (induction ys) auto

lemma set_insert_desc: "set (insert_desc x ys) = insert x (set ys)"
  by (induction ys) auto

lemma desc_insert_desc:
  "sorted_wrt (\<lambda>a b. createdAt b \<le> createdAt a) ys
   \<Longrightarrow> sorted_wrt (\<lambda>a b. createdAt b \<le> createdAt a) (insert_desc x ys)"
  by (induction ys) (auto simp: set_insert_desc)

lemma mset_foldr_insert_desc: "mset (foldr insert_desc xs []) = mset xs"
  by (induction xs) (simp_all add: mset_insert_desc)

lemma desc_foldr_insert_desc:
  "sorted_wrt (\<lambda>a b. createdAt b \<le> createdAt a) (foldr insert_desc xs [])"
  by (induction xs) (simp_all add: desc_insert_desc)

lemma mset_listAll: "mset (listAll d) = mset (rows d)"
  by (simp add: listAll_def mset_foldr_insert_desc)

lemma set_listAll: "set (listAll d) = set (rows d)"
  using mset_listAll [of d] by (metis set_mset_mset)

lemma desc_listAll: "sorted_wrt (\<lambda>a b. createdAt b \<le> createdAt a) (listAll d)"
  by (simp add: listAll_def desc_foldr_insert_desc)

lemma spread_createdAt: "map (\<lambda>n. n\<lparr>createdAt := createdAt n\<rparr>) ns = ns"
  by (induction ns) simp_all

lemma on_connection_effects:
  "on_connection h ws =
     (h\<lparr>clients := clients h @ [(ws, OPEN)]\<rparr>,
      [ConsoleLog ''Client connected'', Send ws (INITIAL_STATE (listAll (db h)))])"
  by (simp add: on_connection_def spread_createdAt)

lemma broadcast_only_sends: "DbDelete i \<notin> set (broadcast cs ev)" "DbInsert n \<notin> set (broadcast cs ev)"
  "ConsoleError er \<notin> set (broadcast cs ev)"
  by (auto simp: broadcast_def)

lemma inserted_ids_broadcast: "inserted_ids (broadcast cs ev) = []"
  unfolding broadcast_def by (induction cs) auto

lemma added_and_kept_broadcast: "\<not> added_and_kept n (broadcast cs ev)"
  unfolding broadcast_def by (induction cs) auto

lemma added_and_kept_append:
  "added_and_kept n (a @ b) \<longleftrightarrow>
     (added_and_kept n a \<and> DbDelete (nid n) \<notin> set b) \<or> added_and_kept n b"
  by (induction a) auto

lemma inserted_ids_append: "inserted_ids (a @ b) = inserted_ids a @ inserted_ids b"
  by (induction a rule: inserted_ids.induct) simp_all

subsection \<open>What one event does\<close>

lemma on_message_add_ok:
  "largest_rowid (db h) < MAX_ROWID \<Longrightarrow>
   on_message h t (Parsed (ADD_NOTICE i)) =
     (h\<lparr>db := \<lparr>rows = rows (db h) @ [new_row (largest_rowid (db h) + 1) (current_timestamp t) i],
               seq = largest_rowid (db h) + 1\<rparr>\<rparr>,
      DbInsert (new_row (largest_rowid (db h) + 1) (current_timestamp t) i)
        # broadcast (clients h) (NOTICE_ADDED (newNotice (largest_rowid (db h) + 1) (date_iso t) i)))"
  by (simp add: on_message_def insert_notice_def Let_def)

lemma on_message_add_full:
  "MAX_ROWID \<le> largest_rowid (db h) \<Longrightarrow>
   on_message h t (Parsed (ADD_NOTICE i)) = (h, [ConsoleError SqliteError])"
  by (simp add: on_message_def insert_notice_def)

lemma on_message_delete:
  "on_message h t (Parsed (DELETE_NOTICE i)) =
     (h\<lparr>db := delete_notice (db h) i\<rparr>, DbDelete i # broadcast (clients h) (NOTICE_DELETED i))"
  by (simp add: on_message_def)

lemma on_message_other: "on_message h t (Parsed (OTHER_COMMAND ty)) = (h, [])"
  by (simp add: on_message_def)

lemma on_message_unparseable: "on_message h t Unparseable = (h, [ConsoleError SyntaxError])"
  by (simp add: on_message_def)

lemma nid_new_row: "nid (new_row r now i) = r"
  by (simp add: new_row_def)

text \<open>
  An event leaves the table alone and neither inserts nor deletes, or it appends one row
  under a fresh rowid, or it deletes by id.
\<close>

lemma handle_outcomes [consumes 1, case_names quiet added deleted]:
  assumes "handle h e = (h1, fx1)"
  obtains
    (quiet) "db h1 = db h" and "\<And>i. DbDelete i \<notin> set fx1" and "\<And>n. DbInsert n \<notin> set fx1"
  | (added) t :: clock and i where "largest_rowid (db h) < MAX_ROWID"
      and "db h1 = \<lparr>rows = rows (db h) @ [new_row (largest_rowid (db h) + 1) (current_timestamp t) i],
                    seq = largest_rowid (db h) + 1\<rparr>"
      and "fx1 = DbInsert (new_row (largest_rowid (db h) + 1) (current_timestamp t) i)
                  # broadcast (clients h)
                      (NOTICE_ADDED (newNotice (largest_rowid (db h) + 1) (date_iso t) i))"
  | (deleted) i where "db h1 = delete_notice (db h) i"
      and "fx1 = DbDelete i # broadcast (clients h) (NOTICE_DELETED i)"
proof (cases e)
  case (Connection ws)
  with assms have "db h1 = db h" and "fx1 = [ConsoleLog ''Client connected'', Send ws (INITIAL_STATE (listAll (db h)))]"
    by (auto simp: on_connection_effects)
  then show ?thesis
    by (intro quiet) simp_all
next
  case (Message t m)
  show ?thesis
  proof (cases m)
    case Unparseable
    with Message assms have "db h1 = db h" and "fx1 = [ConsoleError SyntaxError]"
      by (auto simp: on_message_unparseable)
    then show ?thesis
      by (intro quiet) simp_all
  next
    case (Parsed ev)
    show ?thesis
    proof (cases ev)
      case (ADD_NOTICE i)
      show ?thesis
      proof (cases "largest_rowid (db h) < MAX_ROWID")
        case True
        with ADD_NOTICE Parsed Message assms show ?thesis
          by (intro added [of t i]) (auto simp: on_message_add_ok)
      next
        case False
        with ADD_NOTICE Parsed Message assms
        have "db h1 = db h" and "fx1 = [ConsoleError SqliteError]"
          by (auto simp: on_message_add_full)
        then show ?thesis
          by (intro quiet) simp_all
      qed
    next
      case (DELETE_NOTICE i)
      with Parsed Message assms show ?thesis
        by (intro deleted [of i]) (auto simp: on_message_delete)
    next
      case (OTHER_COMMAND ty)
      with Parsed Message assms have "db h1 = db h" and "fx1 = []"
        by (auto simp: on_message_other)
      then show ?thesis
        by (intro quiet) simp_all
    qed
  qed
qed

lemma run_Cons_cases:
  assumes "run h (e # es) = (h', fx)"
  obtains h1 fx1 fx2 where "handle h e = (h1, fx1)" and "run h1 es = (h', fx2)" and "fx = fx1 @ fx2"
  using assms by (auto split: prod.splits)

lemma no_insert_no_ids: "(\<And>n. DbInsert n \<notin> set fx) \<Longrightarrow> inserted_ids fx = []"
  by (induction fx rule: inserted_ids.induct) auto

lemma no_insert_not_kept: "DbInsert n \<notin> set fx \<Longrightarrow> \<not> added_and_kept n fx"
  by (induction fx) auto

subsection \<open>The rows of the table along a run\<close>

lemma handle_rows:
  assumes "handle h e = (h1, fx1)"
  shows "n \<in> set (rows (db h1)) \<longleftrightarrow>
           (n \<in> set (rows (db h)) \<and> DbDelete (nid n) \<notin> set fx1) \<or> added_and_kept n fx1"
  using assms
proof (cases rule: handle_outcomes)
  case quiet
  then show ?thesis
    by (simp add: no_insert_not_kept)
next
  case (added t i)
  then show ?thesis
    by (auto simp: broadcast_only_sends added_and_kept_broadcast)
next
  case (deleted i)
  then show ?thesis
    by (auto simp: delete_notice_def broadcast_only_sends added_and_kept_broadcast)
qed

lemma run_rows:
  "run h es = (h', fx) \<Longrightarrow>
   n \<in> set (rows (db h')) \<longleftrightarrow>
     (n \<in> set (rows (db h)) \<and> DbDelete (nid n) \<notin> set fx) \<or> added_and_kept n fx"
proof (induction es arbitrary: h fx)
  case Nil
  then show ?case by auto
next
  case (Cons e es)
  from Cons.prems obtain h1 fx1 fx2
    where step: "handle h e = (h1, fx1)" and rest: "run h1 es = (h', fx2)" and fx: "fx = fx1 @ fx2"
    by (rule run_Cons_cases)
  from Cons.IH [OF rest] handle_rows [OF step] show ?case
    unfolding fx by (auto simp: added_and_kept_append)
qed

subsection \<open>Rowids along a run\<close>

lemma handle_ids:
  assumes "handle h e = (h1, fx1)"
  shows "(inserted_ids fx1 = [] \<and> seq (db h1) = seq (db h))
         \<or> (inserted_ids fx1 = [seq (db h1)] \<and> seq (db h) < seq (db h1))"
  using assms
proof (cases rule: handle_outcomes)
  case quiet
  then show ?thesis
    by (simp add: no_insert_no_ids)
next
  case (added t i)
  moreover have "seq (db h) < largest_rowid (db h) + 1"
    using seq_le_largest [of "db h"] by simp
  ultimately show ?thesis
    by (simp add: inserted_ids_broadcast nid_new_row)
next
  case (deleted i)
  then show ?thesis
    by (simp add: delete_notice_def inserted_ids_broadcast)
qed

lemma run_ids:
  "run h es = (h', fx) \<Longrightarrow>
   seq (db h) \<le> seq (db h') \<and> sorted_wrt (<) (inserted_ids fx)
   \<and> (\<forall>r \<in> set (inserted_ids fx). seq (db h) < r \<and> r \<le> seq (db h'))"
proof (induction es arbitrary: h fx)
  case Nil
  then show ?case by auto
next
  case (Cons e es)
  from Cons.prems obtain h1 fx1 fx2
    where step: "handle h e = (h1, fx1)" and rest: "run h1 es = (h', fx2)" and fx: "fx = fx1 @ fx2"
    by (rule run_Cons_cases)
  from Cons.IH [OF rest] handle_ids [OF step] show ?case
    unfolding fx by (fastforce simp: inserted_ids_append sorted_wrt_append)
qed

subsection \<open>The primary key stays a key\<close>

lemma handle_distinct:
  assumes "handle h e = (h1, fx1)" and "distinct (map nid (rows (db h)))"
  shows "distinct (map nid (rows (db h1)))"
  using assms(1)
proof (cases rule: handle_outcomes)
  case quiet
  with assms(2) show ?thesis
    by simp
next
  case (added t i)
  moreover have "largest_rowid (db h) + 1 \<notin> nid ` set (rows (db h))"
    using rowid_le_largest [of _ "db h"] by fastforce
  ultimately show ?thesis
    using assms(2) by (simp add: nid_new_row)
next
  case (deleted i)
  with assms(2) show ?thesis
    by (simp add: delete_notice_def distinct_map_filter)
qed

lemma run_distinct:
  "run h es = (h', fx) \<Longrightarrow> distinct (map nid (rows (db h))) \<Longrightarrow> distinct (map nid (rows (db h')))"
proof (induction es arbitrary: h fx)
  case Nil
  then show ?case by auto
next
  case (Cons e es)
  from Cons.prems(1) obtain h1 fx1 fx2
    where step: "handle h e = (h1, fx1)" and rest: "run h1 es = (h', fx2)"
    by (rule run_Cons_cases)
  from handle_distinct [OF step Cons.prems(2)] show ?case
    by (rule Cons.IH [OF rest])
qed

lemma reachable_key:
  assumes "run init_hub es = (h, fx)"
  shows "distinct (map nid (rows (db h)))"
proof -
  have "distinct (map nid (rows (db init_hub)))"
    by (simp add: init_hub_def init_store_def)
  with assms show ?thesis
    by (rule run_distinct)
qed

lemma distinct_ids_listAll:
  "distinct (map nid (rows d)) \<Longrightarrow> distinct (map nid (listAll d))"
proof -
  assume d: "distinct (map nid (rows d))"
  have "mset (map nid (listAll d)) = mset (map nid (rows d))"
    by (simp add: mset_listAll)
  with d show ?thesis
    by (metis mset_eq_imp_distinct_iff)
qed

text \<open>
  C3. Whatever events the hub has handled since it started on an empty table, the
  \<^verbatim>\<open>INITIAL_STATE\<close> fact it sends to a client that connects then carries \<^verbatim>\<open>listAll()\<close> of
  the store at that moment, and a notice is in it exactly when it was inserted and no
  delete of its id came after the insert; each such notice is in it once.
\<close>

theorem initial_state_snapshot:
  assumes "run init_hub es = (h, fx)"
  shows "snd (on_connection h ws) =
           [ConsoleLog ''Client connected'', Send ws (INITIAL_STATE (listAll (db h)))]
         \<and> (n \<in> set (listAll (db h)) \<longleftrightarrow> added_and_kept n fx)
         \<and> distinct (map nid (listAll (db h)))"
proof -
  from assms have "distinct (map nid (rows (db h)))"
    by (rule reachable_key)
  moreover from run_rows [OF assms, of n] have "n \<in> set (rows (db h)) \<longleftrightarrow> added_and_kept n fx"
    by (simp add: init_hub_def init_store_def)
  ultimately show ?thesis
    by (simp add: on_connection_effects set_listAll distinct_ids_listAll)
qed

theorem initial_state_snapshot_witness:
  "snd (on_connection (fst (run init_hub three_commands)) 7) =
     [ConsoleLog ''Client connected'', Send 7 (INITIAL_STATE [late_fair_row])]
   \<and> added_and_kept late_fair_row (snd (run init_hub three_commands))
   \<and> \<not> added_and_kept exam_row (snd (run init_hub three_commands))"
  using initial_state_snapshot [of three_commands "fst (run init_hub three_commands)"
      "snd (run init_hub three_commands)" 7 late_fair_row]
  by (simp add: sample_defs)

section \<open>Ids\<close>

text \<open>
  C4. Along every run of the hub, from any state, the ids the store assigns to the
  inserted notices are strictly increasing in the order of the inserts, hence pairwise
  distinct, and each is greater than \<open>seq\<close> of the state the run started in. Deletes
  between two inserts change nothing in this: an id is not assigned a second time.
\<close>

theorem ids_strictly_increase:
  assumes "run h es = (h', fx)"
  shows "sorted_wrt (<) (inserted_ids fx) \<and> distinct (inserted_ids fx)
         \<and> (\<forall>r \<in> set (inserted_ids fx). seq (db h) < r)"
proof -
  from run_ids [OF assms] have inc: "sorted_wrt (<) (inserted_ids fx)"
    and above: "\<forall>r \<in> set (inserted_ids fx). seq (db h) < r"
    by simp_all
  from inc have "distinct (inserted_ids fx)"
    by (simp add: strict_sorted_iff)
  with inc above show ?thesis
    by simp
qed

theorem ids_strictly_increase_witness:
  "inserted_ids (snd (run init_hub add_delete_add)) = [1, 2, 3]
   \<and> map nid (rows (db (fst (run init_hub add_delete_add)))) = [1, 3]
   \<and> sorted_wrt (<) (inserted_ids (snd (run init_hub add_delete_add)))
   \<and> distinct (inserted_ids (snd (run init_hub add_delete_add)))"
  using ids_strictly_increase [of init_hub add_delete_add "fst (run init_hub add_delete_add)"
      "snd (run init_hub add_delete_add)"]
  by (simp add: sample_defs)

section \<open>Deleting\<close>

lemma delete_absent: "i \<notin> nid ` set (rows d) \<Longrightarrow> delete_notice d i = d"
  by (simp add: delete_notice_def filter_out_absent)

lemma open_client_is_sent: "(c, OPEN) \<in> set cs \<Longrightarrow> Send c ev \<in> set (broadcast cs ev)"
  by (force simp: broadcast_def)

text \<open>
  C7. A \<^verbatim>\<open>DELETE_NOTICE\<close> command with id \<open>i\<close> makes the hub run the delete and broadcast
  \<^verbatim>\<open>NOTICE_DELETED\<close> with that id to every open connection, whether or not a notice of
  that id is in the store; nothing is thrown and no error is logged, and when the id is
  absent the hub's state stays as it was.
\<close>

theorem delete_always_broadcasts:
  "snd (on_message h t (Parsed (DELETE_NOTICE i)))
     = DbDelete i # broadcast (clients h) (NOTICE_DELETED i)
   \<and> ((c, OPEN) \<in> set (clients h) \<longrightarrow>
        Send c (NOTICE_DELETED i) \<in> set (snd (on_message h t (Parsed (DELETE_NOTICE i)))))
   \<and> ConsoleError er \<notin> set (snd (on_message h t (Parsed (DELETE_NOTICE i))))
   \<and> try_message h t (Parsed (DELETE_NOTICE i)) \<noteq> Inl er
   \<and> (i \<notin> nid ` set (rows (db h)) \<longrightarrow> fst (on_message h t (Parsed (DELETE_NOTICE i))) = h)"
  by (simp add: on_message_delete broadcast_only_sends open_client_is_sent delete_absent)

theorem delete_always_broadcasts_witness:
  "5 \<notin> nid ` set (rows (db hub_with_exam)) \<and> (0, OPEN) \<in> set (clients hub_with_exam)
   \<and> on_message hub_with_exam clock_0129 (Parsed (DELETE_NOTICE 5))
       = (hub_with_exam, [DbDelete 5, Send 0 (NOTICE_DELETED 5)])
   \<and> snd (on_message hub_with_exam clock_0129 (Parsed (DELETE_NOTICE 1)))
       = [DbDelete 1, Send 0 (NOTICE_DELETED 1)]"
  using delete_always_broadcasts [of hub_with_exam clock_0129 5 0]
    delete_always_broadcasts [of hub_with_exam clock_0129 1 0]
  by (simp add: sample_defs)

lemma count_broadcast:
  "count_list (broadcast cs ev) (Send c ev) = count_list cs (c, OPEN)"
  unfolding broadcast_def by (induction cs) auto

text \<open>
  C8. The ids are a key of the table (\<open>reachable_key\<close>: they are in every state the hub
  reaches). When a notice of the id is in the store, two \<^verbatim>\<open>DELETE_NOTICE\<close> commands for
  it in a row take exactly that one row out of the store: the first removes it, the
  second leaves the hub as the first left it. Each of the two is broadcast, so every
  connection receives \<^verbatim>\<open>NOTICE_DELETED\<close> of the id twice for each time it is registered as
  open.
\<close>

theorem delete_twice:
  assumes key: "distinct (map nid (rows (db h)))"
    and present: "n \<in> set (rows (db h))"
    and first: "on_message h t (Parsed (DELETE_NOTICE (nid n))) = (h1, fx1)"
    and second: "on_message h1 t' (Parsed (DELETE_NOTICE (nid n))) = (h2, fx2)"
  shows "mset (rows (db h)) = add_mset n (mset (rows (db h1)))
         \<and> length (rows (db h)) = Suc (length (rows (db h1)))
         \<and> h2 = h1
         \<and> fx1 @ fx2 = DbDelete (nid n) # broadcast (clients h) (NOTICE_DELETED (nid n))
                       @ DbDelete (nid n) # broadcast (clients h) (NOTICE_DELETED (nid n))
         \<and> count_list (fx1 @ fx2) (Send c (NOTICE_DELETED (nid n)))
             = 2 * count_list (clients h) (c, OPEN)"
proof -
  from present obtain xs ys where split: "rows (db h) = xs @ n # ys"
    by (auto simp: in_set_conv_decomp)
  with key have gone: "filter (\<lambda>m. nid m \<noteq> nid n) (rows (db h)) = xs @ ys"
    by (simp only: filter_out_the_entry)
  from first have h1: "h1 = h\<lparr>db := delete_notice (db h) (nid n)\<rparr>"
    and fx1: "fx1 = DbDelete (nid n) # broadcast (clients h) (NOTICE_DELETED (nid n))"
    by (simp_all add: on_message_delete)
  from h1 gone have rows1: "rows (db h1) = xs @ ys"
    by (simp add: delete_notice_def)
  from key split have "nid n \<notin> nid ` set (xs @ ys)"
    by auto
  with rows1 have absent: "nid n \<notin> nid ` set (rows (db h1))"
    by simp
  from second have h2: "h2 = h1\<lparr>db := delete_notice (db h1) (nid n)\<rparr>"
    and fx2: "fx2 = DbDelete (nid n) # broadcast (clients h1) (NOTICE_DELETED (nid n))"
    by (simp_all add: on_message_delete)
  from h2 absent have "h2 = h1"
    by (simp add: delete_absent)
  moreover from h1 have "clients h1 = clients h"
    by simp
  ultimately show ?thesis
    using split rows1 fx1 fx2 by (simp add: count_broadcast)
qed

theorem delete_twice_witness:
  "distinct (map nid (rows (db hub_with_exam))) \<and> exam_row \<in> set (rows (db hub_with_exam))
   \<and> rows (db (fst (on_message hub_with_exam clock_0128 (Parsed (DELETE_NOTICE (nid exam_row)))))) = []
   \<and> on_message (fst (on_message hub_with_exam clock_0128 (Parsed (DELETE_NOTICE (nid exam_row)))))
        clock_0129 (Parsed (DELETE_NOTICE (nid exam_row)))
       = (fst (on_message hub_with_exam clock_0128 (Parsed (DELETE_NOTICE (nid exam_row)))),
          [DbDelete 1, Send 0 (NOTICE_DELETED 1)])
   \<and> count_list
        (snd (on_message hub_with_exam clock_0128 (Parsed (DELETE_NOTICE (nid exam_row))))
         @ snd (on_message (fst (on_message hub_with_exam clock_0128 (Parsed (DELETE_NOTICE (nid exam_row)))))
                  clock_0129 (Parsed (DELETE_NOTICE (nid exam_row)))))
        (Send 0 (NOTICE_DELETED (nid exam_row))) = 2"
  using delete_twice [of hub_with_exam exam_row clock_0128
      "fst (on_message hub_with_exam clock_0128 (Parsed (DELETE_NOTICE (nid exam_row))))"
      "snd (on_message hub_with_exam clock_0128 (Parsed (DELETE_NOTICE (nid exam_row))))"
      clock_0129
      "fst (on_message (fst (on_message hub_with_exam clock_0128 (Parsed (DELETE_NOTICE (nid exam_row)))))
             clock_0129 (Parsed (DELETE_NOTICE (nid exam_row))))"
      "snd (on_message (fst (on_message hub_with_exam clock_0128 (Parsed (DELETE_NOTICE (nid exam_row)))))
             clock_0129 (Parsed (DELETE_NOTICE (nid exam_row))))" 0]
  by (simp add: sample_defs)

section \<open>Frames that are no command\<close>

text \<open>
  C9. A frame on which \<^verbatim>\<open>JSON.parse\<close> throws is caught by the handler: the error is
  logged and the hub (store and connection set) is as before, with nothing sent. A
  frame that parses to an event whose type is neither \<^verbatim>\<open>ADD_NOTICE\<close> nor
  \<^verbatim>\<open>DELETE_NOTICE\<close> has no effect at all. In both cases the handler returns.
\<close>

theorem malformed_ignored:
  "try_message h t Unparseable = Inl SyntaxError
   \<and> on_message h t Unparseable = (h, [ConsoleError SyntaxError])
   \<and> (client_event_type ev \<notin> {''ADD_NOTICE'', ''DELETE_NOTICE''} \<longrightarrow>
        on_message h t (Parsed ev) = (h, []))"
  by (cases ev) (simp_all add: on_message_def)

theorem malformed_ignored_witness:
  "client_event_type (OTHER_COMMAND ''PING'') \<notin> {''ADD_NOTICE'', ''DELETE_NOTICE''}
   \<and> on_message hub_with_exam clock_0129 (Parsed (OTHER_COMMAND ''PING'')) = (hub_with_exam, [])
   \<and> run hub_with_exam [Message clock_0129 Unparseable, Message clock_0129 (Parsed (OTHER_COMMAND ''PING''))]
       = (hub_with_exam, [ConsoleError SyntaxError])"
  using malformed_ignored [of hub_with_exam clock_0129 "OTHER_COMMAND ''PING''"]
  by simp

section \<open>Adding\<close>




subsection \<open>The insert and its broadcast\<close>

text \<open>
  The notice broadcast for an insert and the row inserted agree on the five text
  fields; the id of the broadcast is the rowid as a JavaScript number.
\<close>

lemma broadcast_notice_vs_row:
  "title (newNotice r stamp i) = title (new_row r now i)
   \<and> content (newNotice r stamp i) = content (new_row r now i)
   \<and> category (newNotice r stamp i) = category (new_row r now i)
   \<and> priority (newNotice r stamp i) = priority (new_row r now i)
   \<and> author (newNotice r stamp i) = author (new_row r now i)
   \<and> nid (newNotice r stamp i) = js_number (nid (new_row r now i))"
  by (simp add: newNotice_def new_row_def)

text \<open>
  Where they part besides \<^verbatim>\<open>createdAt\<close>: an \<^verbatim>\<open>expiresAt\<close> that reads as a number is a
  number in the row and the string in the broadcast, and a rowid above \<open>2^53\<close> is
  rounded in the broadcast.
\<close>

lemma numeric_expiry_stored_as_number:
  "on_message hub_one_client clock_0128 (Parsed (ADD_NOTICE numeric_expiry_input))
     = (\<lparr>db = \<lparr>rows = [\<lparr>title = ''Library hours'', content = ''Open until ten'',
                          category = ''General'', priority = ''Medium'', author = ''Admin'',
                          expiresAt = SqlNumber 1000, nid = 1,
                          createdAt = ''2026-11-02 01:28:00''\<rparr>],
                seq = 1\<rparr>,
         clients = [(0, OPEN)]\<rparr>,
        [DbInsert \<lparr>title = ''Library hours'', content = ''Open until ten'',
                   category = ''General'', priority = ''Medium'', author = ''Admin'',
                   expiresAt = SqlNumber 1000, nid = 1, createdAt = ''2026-11-02 01:28:00''\<rparr>,
         Send 0 (NOTICE_ADDED
           \<lparr>title = ''Library hours'', content = ''Open until ten'',
            category = ''General'', priority = ''Medium'', author = ''Admin'',
            expiresAt = SqlText ''1e3'', nid = 1, createdAt = ''2026-11-02T01:28:00.123Z''\<rparr>)])"
  by (simp add: numeric_expiry_input_def numeric_affinity_of_numbers js_number_def sample_defs)

lemma broadcast_id_rounded:
  "on_message hub_at_2_53 clock_0128 (Parsed (ADD_NOTICE exam_input))
     = (\<lparr>db = \<lparr>rows = [new_row 9007199254740993 ''2026-11-02 01:28:00'' exam_input],
                seq = 9007199254740993\<rparr>,
         clients = [(0, OPEN)]\<rparr>,
        [DbInsert (new_row 9007199254740993 ''2026-11-02 01:28:00'' exam_input),
         Send 0 (NOTICE_ADDED (newNotice 9007199254740993 ''2026-11-02T01:28:00.123Z'' exam_input))])
   \<and> nid (new_row 9007199254740993 ''2026-11-02 01:28:00'' exam_input) = 9007199254740993
   \<and> nid (newNotice 9007199254740993 ''2026-11-02T01:28:00.123Z'' exam_input) = 9007199254740992"
  using js_number_rounds
  by (simp add: hub_at_2_53_def on_message_def insert_notice_def largest_rowid_def MAX_ROWID_def
      broadcast_def clock_0128_def new_row_def newNotice_def)

text \<open>
  C2. At this input the row written has the \<^verbatim>\<open>createdAt\<close> the database assigned, the
  notice broadcast for it carries the handler's own \<^verbatim>\<open>new Date().toISOString()\<close>, and a
  client connecting next is sent the row: the same notice reaches clients with two
  different \<^verbatim>\<open>createdAt\<close> values. The insert comes before the sends.
\<close>

theorem broadcast_createdAt_differs:
  "on_message hub_one_client clock_0128 (Parsed (ADD_NOTICE exam_input))
     = (\<lparr>db = \<lparr>rows = [exam_row], seq = 1\<rparr>, clients = [(0, OPEN)]\<rparr>,
        [DbInsert exam_row,
         Send 0 (NOTICE_ADDED (newNotice 1 ''2026-11-02T01:28:00.123Z'' exam_input))])
   \<and> createdAt exam_row = ''2026-11-02 01:28:00''
   \<and> createdAt (newNotice 1 ''2026-11-02T01:28:00.123Z'' exam_input) = ''2026-11-02T01:28:00.123Z''
   \<and> newNotice 1 ''2026-11-02T01:28:00.123Z'' exam_input \<noteq> exam_row
   \<and> snd (on_connection (fst (on_message hub_one_client clock_0128 (Parsed (ADD_NOTICE exam_input)))) 1)
       = [ConsoleLog ''Client connected'', Send 1 (INITIAL_STATE [exam_row])]"
  by (simp add: sample_defs)

section \<open>Listing\<close>

text \<open>
  C5, as the specification states it, fails: two notices inserted within the same second
  share their \<^verbatim>\<open>createdAt\<close>, and \<^verbatim>\<open>listAll\<close> returns the one with the smaller id first.
  The query itself is answered by either order of the two.
\<close>

theorem same_second_ties_oldest_first:
  "rows (db (fst (run init_hub same_second_adds))) = [exam_row, fair_row]
   \<and> createdAt exam_row = createdAt fair_row \<and> nid exam_row < nid fair_row
   \<and> listAll (db (fst (run init_hub same_second_adds))) = [exam_row, fair_row]
   \<and> \<not> newest_first_ties_by_id (listAll (db (fst (run init_hub same_second_adds))))
   \<and> answers_query (db (fst (run init_hub same_second_adds))) [exam_row, fair_row]
   \<and> answers_query (db (fst (run init_hub same_second_adds))) [fair_row, exam_row]"
  by (simp add: newest_first_ties_by_id_def answers_query_def sample_defs)

text \<open>
  C5, amended. \<^verbatim>\<open>listAll\<close> returns every persisted notice, each as often as the table
  holds it, sorted by \<^verbatim>\<open>createdAt\<close> descending. Nothing is said about the order of
  notices with the same \<^verbatim>\<open>createdAt\<close>.
\<close>

theorem listAll_newest_first:
  "mset (listAll d) = mset (rows d)
   \<and> sorted_wrt (\<lambda>a b. createdAt b \<le> createdAt a) (listAll d)"
  by (simp add: mset_listAll desc_listAll)

theorem listAll_newest_first_witness:
  "listAll \<lparr>rows = [exam_row, late_fair_row], seq = 2\<rparr> = [late_fair_row, exam_row]
   \<and> sorted_wrt (\<lambda>a b. createdAt b \<le> createdAt a) (listAll \<lparr>rows = [exam_row, late_fair_row], seq = 2\<rparr>)"
  using listAll_newest_first [of "\<lparr>rows = [exam_row, late_fair_row], seq = 2\<rparr>"]
  by (simp add: sample_defs)


end
